theory Spec2Isabelle
  imports Main
begin

section \<open>urlshort: redirect handlers built from a map or from a YAML document\<close>

text \<open>
  The repository is one Go file, \<^verbatim>\<open>handler.go\<close>, with two functions.
  \<^verbatim>\<open>MapHandler(pathsToUrls, fallback)\<close> returns a closure over a map and a fallback
  handler; \<^verbatim>\<open>YAMLHandler(yamlBytes, fallback)\<close> decodes a YAML document into a slice
  of \<^verbatim>\<open>pathURLPair\<close>, copies the slice into a fresh map and returns
  \<^verbatim>\<open>MapHandler\<close> of that map.

  Two library calls are made by the file and are not part of it:
  \<^item> \<^verbatim>\<open>http.Redirect(w, r, url, code)\<close> of \<^verbatim>\<open>net/http\<close>. It is a parameter of the
    model (\<open>http_Redirect\<close>), so every theorem holds for whatever the host does
    with the four arguments it is given.
  \<^item> \<^verbatim>\<open>yaml.Unmarshal(yamlBytes, &pairs)\<close> of \<^verbatim>\<open>gopkg.in/yaml.v2\<close>. Its decoding of a
    parsed document into \<^verbatim>\<open>[]pathURLPair\<close> is modelled below, after the functions of
    the library's \<^verbatim>\<open>decode.go\<close>; the concrete syntax of YAML is not modelled, and
    the byte slice is represented by what the library's parser reads in it.
\<close>

subsection \<open>Requests and handlers of net/http\<close>

text \<open>
  Of \<^verbatim>\<open>http.Request\<close> the model keeps the method, the URL (path and query string) and
  the header. The source reads \<^verbatim>\<open>r.URL.Path\<close> only. A request delivered by the
  server has a URL, so the field is not a pointer here.
\<close>

record url =
  url_Path :: string
  RawQuery :: string

record Request =
  Method :: string
  Request_URL :: url
  Header :: "(string \<times> string list) list"

text \<open>
  A handler is what \<^verbatim>\<open>ServeHTTP(w, r)\<close> does to the response writer. The writer's
  type \<open>'w\<close> is left open: it stands for everything the host and the fallback
  can observe or change. A fallback is a handler value (not the nil interface).
\<close>

type_synonym 'w Handler = "'w \<Rightarrow> Request \<Rightarrow> 'w"

type_synonym 'w Redirect = "'w \<Rightarrow> Request \<Rightarrow> string \<Rightarrow> nat \<Rightarrow> 'w"

definition StatusFound :: nat where
  "StatusFound = 302"

subsection \<open>MapHandler\<close>

text \<open>
  The function literal returned by \<^verbatim>\<open>MapHandler\<close> captures its two arguments. A Go
  map is a mutable object, so the closure is modelled as the record of its captured
  variables, and running its body returns that record as the body leaves it, next to
  the response writer.
\<close>

record 'w HandlerFunc =
  pathsToUrls :: "string \<rightharpoonup> string"
  fallback :: "'w Handler"

definition MapHandler :: "(string \<rightharpoonup> string) \<Rightarrow> 'w Handler \<Rightarrow> 'w HandlerFunc" where
  "MapHandler m fb = \<lparr>pathsToUrls = m, fallback = fb\<rparr>"

text \<open>
  The body of the closure (\<^verbatim>\<open>handler.go\<close>, lines 18 to 29):
  \<^verbatim>\<open>
  path := r.URL.Path
  if url, keyFound := pathsToUrls[path]; keyFound {
      http.Redirect(w, r, url, http.StatusFound)
  } else {
      fallback.ServeHTTP(w, r)
  }
  \<close>
  The lookup of a Go map never fails (a nil map reads as empty), and neither branch
  assigns to a captured variable.
\<close>

definition ServeHTTP :: "'w Redirect \<Rightarrow> 'w HandlerFunc \<Rightarrow> 'w \<Rightarrow> Request \<Rightarrow> 'w HandlerFunc \<times> 'w" where
  "ServeHTTP http_Redirect h w r =
     (let path = url_Path (Request_URL r) in
      case pathsToUrls h path of
        Some url \<Rightarrow> (h, http_Redirect w r url StatusFound)
      | None \<Rightarrow> (h, fallback h w r))"


subsection \<open>Decoding a YAML document into a slice of pathURLPair\<close>

text \<open>
  \<^verbatim>\<open>
  type pathURLPair struct {
      Path string `yaml:"path"`
      URL  string `yaml:"url"`
  }
  \<close>
\<close>

record pathURLPair =
  Path :: string
  URL :: string

text \<open>
  A parsed document is a tree of nodes. \<open>Null\<close> is a scalar that resolves to
  \<^verbatim>\<open>!!null\<close> (\<^verbatim>\<open>~\<close>, \<^verbatim>\<open>null\<close>, or nothing at all); \<open>Scalar v\<close> is any other scalar,
  with its text. Anchors, aliases, merge keys and \<^verbatim>\<open>!!binary\<close> scalars are not
  modelled.

  The byte slice handed to \<^verbatim>\<open>yaml.Unmarshal\<close> is represented by the outcome of the
  library's parser: the bytes are not YAML (\<open>Unparsable\<close>, with the parser's
  message), the stream holds no document (\<open>No_document\<close>: an empty byte slice, or
  only blanks and comments), or it holds a document (the first one is decoded).
\<close>

datatype yaml_node =
  Null
| Scalar string
| Sequence "yaml_node list"
| Mapping "(yaml_node \<times> yaml_node) list"

datatype yaml_bytes =
  Unparsable string
| No_document
| Document yaml_node

text \<open>
  The decoder collects its type errors in \<^verbatim>\<open>d.terrors\<close> and goes on decoding; each
  entry says which kind of node could not be decoded into which Go type (the real
  message also has the line number). \<^verbatim>\<open>Unmarshal\<close> returns a \<^verbatim>\<open>*yaml.TypeError\<close>
  when the list is not empty at the end, and the parser's error when the bytes are
  not YAML.
\<close>

datatype yaml_kind = Kind_scalar | Kind_seq | Kind_map

datatype go_type = T_string | T_pathURLPair | T_slice_pathURLPair

type_synonym terror = "yaml_kind \<times> go_type"

datatype yaml_error =
  SyntaxError string
| TypeError "terror list"

text \<open>
  \<^verbatim>\<open>d.unmarshal(n, out)\<close> for \<open>out\<close> of kind string: a null resets it to the zero
  value, any other scalar sets it to the scalar's text (\<^verbatim>\<open>d.scalar\<close>), a sequence or
  a mapping is a type error and leaves it alone. The result is the \<open>good\<close> flag,
  the new value of \<open>out\<close> and the new \<^verbatim>\<open>d.terrors\<close>.
\<close>

fun unmarshal_string :: "yaml_node \<Rightarrow> string \<Rightarrow> terror list \<Rightarrow> bool \<times> string \<times> terror list" where
  "unmarshal_string Null out terrors = (True, [], terrors)"
| "unmarshal_string (Scalar v) out terrors = (True, v, terrors)"
| "unmarshal_string (Sequence ns) out terrors = (False, out, terrors @ [(Kind_seq, T_string)])"
| "unmarshal_string (Mapping kvs) out terrors = (False, out, terrors @ [(Kind_map, T_string)])"

text \<open>
  \<^verbatim>\<open>d.mappingStruct(n, out)\<close> for \<open>out\<close> of type \<^verbatim>\<open>pathURLPair\<close>: the loop over the
  key/value pairs of the mapping. A key is decoded as a string (a key that is not a
  scalar is a type error, and the pair is skipped); a key that names a field decodes
  its value into the field; any other key is ignored, the decoder not being strict.
  A field the mapping never names keeps the value it had.
\<close>

fun mappingStruct :: "(yaml_node \<times> yaml_node) list \<Rightarrow> pathURLPair \<Rightarrow> terror list \<Rightarrow> pathURLPair \<times> terror list" where
  "mappingStruct [] out terrors = (out, terrors)"
| "mappingStruct ((ni, nv) # children) out terrors =
     (case unmarshal_string ni [] terrors of
        (False, _, terrors') \<Rightarrow> mappingStruct children out terrors'
      | (True, name, terrors') \<Rightarrow>
          if name = ''path'' then
            (case unmarshal_string nv (Path out) terrors' of
               (_, v, terrors'') \<Rightarrow> mappingStruct children (out\<lparr>Path := v\<rparr>) terrors'')
          else if name = ''url'' then
            (case unmarshal_string nv (URL out) terrors' of
               (_, v, terrors'') \<Rightarrow> mappingStruct children (out\<lparr>URL := v\<rparr>) terrors'')
          else mappingStruct children out terrors')"

text \<open>
  \<^verbatim>\<open>d.unmarshal(n, e)\<close> for a fresh element \<open>e\<close> of type \<^verbatim>\<open>pathURLPair\<close>: a null gives
  the zero struct, a mapping is decoded field by field, and another scalar or a
  sequence is a type error.
\<close>

definition zero_pair :: pathURLPair where
  "zero_pair = \<lparr>Path = [], URL = []\<rparr>"

fun unmarshal_pair :: "yaml_node \<Rightarrow> terror list \<Rightarrow> bool \<times> pathURLPair \<times> terror list" where
  "unmarshal_pair Null terrors = (True, zero_pair, terrors)"
| "unmarshal_pair (Scalar v) terrors = (False, zero_pair, terrors @ [(Kind_scalar, T_pathURLPair)])"
| "unmarshal_pair (Sequence ns) terrors = (False, zero_pair, terrors @ [(Kind_seq, T_pathURLPair)])"
| "unmarshal_pair (Mapping kvs) terrors =
     (case mappingStruct kvs zero_pair terrors of (e, terrors') \<Rightarrow> (True, e, terrors'))"

text \<open>
  The loop of \<^verbatim>\<open>d.sequence(n, out)\<close> for \<open>out\<close> of type \<^verbatim>\<open>[]pathURLPair\<close>: an element
  that decodes is appended, one that does not is left out.
\<close>

fun sequence_loop :: "yaml_node list \<Rightarrow> pathURLPair list \<Rightarrow> terror list \<Rightarrow> pathURLPair list \<times> terror list" where
  "sequence_loop [] out terrors = (out, terrors)"
| "sequence_loop (n # ns) out terrors =
     (case unmarshal_pair n terrors of
        (True, e, terrors') \<Rightarrow> sequence_loop ns (out @ [e]) terrors'
      | (False, _, terrors') \<Rightarrow> sequence_loop ns out terrors')"

text \<open>
  \<^verbatim>\<open>d.unmarshal(n, out)\<close> for \<open>out\<close> of type \<^verbatim>\<open>[]pathURLPair\<close>: a null gives the nil
  slice, a sequence is decoded element by element into a new slice, and another
  scalar or a mapping is a type error.
\<close>

fun unmarshal_pairs :: "yaml_node \<Rightarrow> pathURLPair list \<Rightarrow> terror list \<Rightarrow> pathURLPair list \<times> terror list" where
  "unmarshal_pairs Null out terrors = ([], terrors)"
| "unmarshal_pairs (Scalar v) out terrors = (out, terrors @ [(Kind_scalar, T_slice_pathURLPair)])"
| "unmarshal_pairs (Sequence ns) out terrors = sequence_loop ns [] terrors"
| "unmarshal_pairs (Mapping kvs) out terrors = (out, terrors @ [(Kind_map, T_slice_pathURLPair)])"

text \<open>
  \<^verbatim>\<open>yaml.Unmarshal(in, &out)\<close>: the value of \<open>out\<close> afterwards, and the error
  returned. On a type error \<open>out\<close> holds what was decoded all the same.
\<close>

definition yaml_Unmarshal :: "yaml_bytes \<Rightarrow> pathURLPair list \<Rightarrow> pathURLPair list \<times> yaml_error option" where
  "yaml_Unmarshal inp out =
     (case inp of
        Unparsable msg \<Rightarrow> (out, Some (SyntaxError msg))
      | No_document \<Rightarrow> (out, None)
      | Document n \<Rightarrow>
          (case unmarshal_pairs n out [] of
             (out', terrors) \<Rightarrow> (out', if terrors = [] then None else Some (TypeError terrors))))"

subsection \<open>YAMLHandler\<close>

text \<open>
  The loop of lines 59 to 61, over the map it fills:
  \<^verbatim>\<open>
  for _, pair := range pairs {
      pathsToUrls[pair.Path] = pair.URL
  }
  \<close>
\<close>

fun range_pairs :: "pathURLPair list \<Rightarrow> (string \<rightharpoonup> string) \<Rightarrow> (string \<rightharpoonup> string)" where
  "range_pairs [] m = m"
| "range_pairs (pair # pairs) m = range_pairs pairs (m(Path pair \<mapsto> URL pair))"

text \<open>
  \<^verbatim>\<open>YAMLHandler\<close> returns \<^verbatim>\<open>(nil, err)\<close> when \<^verbatim>\<open>yaml.Unmarshal\<close> returns an error, and
  \<^verbatim>\<open>(MapHandler(pathsToUrls, fallback), nil)\<close> otherwise: the result is the error or
  the handler. \<open>pairs\<close> is the nil slice when the decoder is called.
\<close>

definition YAMLHandler :: "yaml_bytes \<Rightarrow> 'w Handler \<Rightarrow> yaml_error + 'w HandlerFunc" where
  "YAMLHandler yamlBytes fb =
     (case yaml_Unmarshal yamlBytes [] of
        (pairs, Some err) \<Rightarrow> Inl err
      | (pairs, None) \<Rightarrow> Inr (MapHandler (range_pairs pairs Map.empty) fb))"

subsection \<open>The spec's notions\<close>

text \<open>
  The canonical mapping of the spec: each path is mapped to the URL of its last
  occurrence in the list of pairs (last write wins).
\<close>

definition canonical_mapping :: "pathURLPair list \<Rightarrow> (string \<rightharpoonup> string)" where
  "canonical_mapping pairs path =
     (case filter (\<lambda>pair. Path pair = path) pairs of
        [] \<Rightarrow> None
      | p # ps \<Rightarrow> Some (URL (last (p # ps))))"






section \<open>The closure\<close>




text \<open>
  C3. Whatever the mapping, the fallback and the request: when the request's path is
  a key of the mapping, the handler made by \<open>MapHandler\<close> answers with
  \<^verbatim>\<open>http.Redirect\<close> to the URL stored under that key, with status 302 Found.
\<close>

theorem MapHandler_redirects_mapped_path:
  assumes "m (url_Path (Request_URL r)) = Some url"
  shows "ServeHTTP rd (MapHandler m fb) w r = (MapHandler m fb, rd w r url StatusFound)
    \<and> StatusFound = 302"
  using assms by (simp add: ServeHTTP_def MapHandler_def StatusFound_def)

text \<open>
  The scenario of the spec: the mapping \<^verbatim>\<open>{"/dogs": "https://example.com/dogs"}\<close> and a
  request to \<^verbatim>\<open>/dogs\<close>. The writer is the list of the answers written to it.
\<close>

theorem MapHandler_redirects_mapped_path_witness:
  "[''/dogs'' \<mapsto> ''https://example.com/dogs'']
     (url_Path (Request_URL
        \<lparr>Method = ''GET'', Request_URL = \<lparr>url_Path = ''/dogs'', RawQuery = []\<rparr>, Header = []\<rparr>))
     = Some ''https://example.com/dogs''
   \<and> snd (ServeHTTP (\<lambda>w r url code. w @ [(code, url)])
        (MapHandler [''/dogs'' \<mapsto> ''https://example.com/dogs'']
           (\<lambda>w r. w @ [(404, ''404 page not found'')]))
        []
        \<lparr>Method = ''GET'', Request_URL = \<lparr>url_Path = ''/dogs'', RawQuery = []\<rparr>, Header = []\<rparr>)
     = [(302, ''https://example.com/dogs'')]"
proof -
  let ?r = "\<lparr>Method = ''GET'', Request_URL = \<lparr>url_Path = ''/dogs'', RawQuery = []\<rparr>, Header = []\<rparr>"
  let ?m = "[''/dogs'' \<mapsto> ''https://example.com/dogs'']"
  have key: "?m (url_Path (Request_URL ?r)) = Some ''https://example.com/dogs''"
    by simp
  from MapHandler_redirects_mapped_path
         [where m = ?m and r = ?r and url = "''https://example.com/dogs''"
            and rd = "\<lambda>w r url code. w @ [(code, url)]"
            and fb = "\<lambda>w r. w @ [(404, ''404 page not found'')]" and w = "[]", OF key] key
  show ?thesis by simp
qed

text \<open>
  C4. Whatever the mapping, the fallback and the request: when the request's path is
  not a key of the mapping, the handler made by \<open>MapHandler\<close> calls the fallback
  with the writer and the request it was given itself, and what the fallback does is
  the whole of the answer.
\<close>

theorem MapHandler_delegates_unmapped_path:
  assumes "m (url_Path (Request_URL r)) = None"
  shows "ServeHTTP rd (MapHandler m fb) w r = (MapHandler m fb, fb w r)"
  using assms by (simp add: ServeHTTP_def MapHandler_def)

text \<open>The scenario of the spec: the same mapping and a request to \<^verbatim>\<open>/cats\<close>.\<close>

theorem MapHandler_delegates_unmapped_path_witness:
  "[''/dogs'' \<mapsto> ''https://example.com/dogs'']
     (url_Path (Request_URL
        \<lparr>Method = ''GET'', Request_URL = \<lparr>url_Path = ''/cats'', RawQuery = []\<rparr>, Header = []\<rparr>))
     = None
   \<and> snd (ServeHTTP (\<lambda>w r url code. w @ [(code, url)])
        (MapHandler [''/dogs'' \<mapsto> ''https://example.com/dogs'']
           (\<lambda>w r. w @ [(404, ''404 page not found'')]))
        []
        \<lparr>Method = ''GET'', Request_URL = \<lparr>url_Path = ''/cats'', RawQuery = []\<rparr>, Header = []\<rparr>)
     = [(404, ''404 page not found'')]"
proof -
  let ?r = "\<lparr>Method = ''GET'', Request_URL = \<lparr>url_Path = ''/cats'', RawQuery = []\<rparr>, Header = []\<rparr>"
  let ?m = "[''/dogs'' \<mapsto> ''https://example.com/dogs'']"
  have key: "?m (url_Path (Request_URL ?r)) = None"
    by simp
  from MapHandler_delegates_unmapped_path
         [where m = ?m and r = ?r
            and rd = "\<lambda>w r url code. w @ [(code, url)]"
            and fb = "\<lambda>w r. w @ [(404, ''404 page not found'')]" and w = "[]", OF key] key
  show ?thesis by simp
qed



text \<open>
  C10. For a fixed mapping and fallback, two requests with the same URL path take the
  same branch, whatever their methods, headers and query strings and whatever was
  written before: both are redirected, to the same URL, or both go to the fallback.
\<close>

theorem dispatch_depends_on_path_only:
  assumes "url_Path (Request_URL ra) = url_Path (Request_URL rb)"
  shows "(\<exists>url. m (url_Path (Request_URL ra)) = Some url
          \<and> ServeHTTP rd (MapHandler m fb) wa ra = (MapHandler m fb, rd wa ra url StatusFound)
          \<and> ServeHTTP rd (MapHandler m fb) wb rb = (MapHandler m fb, rd wb rb url StatusFound))
     \<or> (m (url_Path (Request_URL ra)) = None
          \<and> ServeHTTP rd (MapHandler m fb) wa ra = (MapHandler m fb, fb wa ra)
          \<and> ServeHTTP rd (MapHandler m fb) wb rb = (MapHandler m fb, fb wb rb))"
  using assms
  by (cases "m (url_Path (Request_URL ra))") (simp_all add: ServeHTTP_def MapHandler_def)

text \<open>
  A \<^verbatim>\<open>GET /dogs\<close> and a \<^verbatim>\<open>POST /dogs?x=1\<close> with a header are redirected to the same
  URL.
\<close>

theorem dispatch_depends_on_path_only_witness:
  "url_Path (Request_URL
      \<lparr>Method = ''GET'', Request_URL = \<lparr>url_Path = ''/dogs'', RawQuery = []\<rparr>, Header = []\<rparr>)
     = url_Path (Request_URL
      \<lparr>Method = ''POST'', Request_URL = \<lparr>url_Path = ''/dogs'', RawQuery = ''x=1''\<rparr>,
       Header = [(''Accept'', [''text/html''])]\<rparr>)
   \<and> snd (ServeHTTP (\<lambda>w r url code. w @ [(code, url)])
        (MapHandler [''/dogs'' \<mapsto> ''https://example.com/dogs'']
           (\<lambda>w r. w @ [(404, ''404 page not found'')]))
        []
        \<lparr>Method = ''GET'', Request_URL = \<lparr>url_Path = ''/dogs'', RawQuery = []\<rparr>, Header = []\<rparr>)
     = [(302, ''https://example.com/dogs'')]
   \<and> snd (ServeHTTP (\<lambda>w r url code. w @ [(code, url)])
        (MapHandler [''/dogs'' \<mapsto> ''https://example.com/dogs'']
           (\<lambda>w r. w @ [(404, ''404 page not found'')]))
        []
        \<lparr>Method = ''POST'', Request_URL = \<lparr>url_Path = ''/dogs'', RawQuery = ''x=1''\<rparr>,
         Header = [(''Accept'', [''text/html''])]\<rparr>)
     = [(302, ''https://example.com/dogs'')]"
proof -
  let ?r1 = "\<lparr>Method = ''GET'', Request_URL = \<lparr>url_Path = ''/dogs'', RawQuery = []\<rparr>, Header = []\<rparr>"
  let ?r2 = "\<lparr>Method = ''POST'', Request_URL = \<lparr>url_Path = ''/dogs'', RawQuery = ''x=1''\<rparr>,
       Header = [(''Accept'', [''text/html''])]\<rparr>"
  have same: "url_Path (Request_URL ?r1) = url_Path (Request_URL ?r2)"
    by simp
  from dispatch_depends_on_path_only
         [where ra = ?r1 and rb = ?r2 and m = "[''/dogs'' \<mapsto> ''https://example.com/dogs'']"
            and rd = "\<lambda>w r url code. w @ [(code, url)]"
            and fb = "\<lambda>w r. w @ [(404, ''404 page not found'')]"
            and wa = "[]" and wb = "[]", OF same] same
  show ?thesis by (auto simp: StatusFound_def)
qed



text \<open>
  C9. A document that is empty (no bytes, so no document in the stream) or that is an
  empty sequence is decoded without error; \<open>YAMLHandler\<close> returns a handler on the
  empty mapping, and that handler passes every request to the fallback.
\<close>

theorem YAMLHandler_empty_document:
  assumes "yamlBytes = No_document \<or> yamlBytes = Document (Sequence [])"
  shows "YAMLHandler yamlBytes fb = Inr (MapHandler Map.empty fb)
    \<and> ServeHTTP rd (MapHandler Map.empty fb) w r = (MapHandler Map.empty fb, fb w r)"
  using assms by (auto simp: YAMLHandler_def yaml_Unmarshal_def ServeHTTP_def MapHandler_def)

theorem YAMLHandler_empty_document_witness:
  "YAMLHandler No_document (\<lambda>w r. w @ [(404::nat, ''404 page not found'')])
     = Inr (MapHandler Map.empty (\<lambda>w r. w @ [(404::nat, ''404 page not found'')]))
   \<and> YAMLHandler (Document (Sequence [])) (\<lambda>w r. w @ [(404::nat, ''404 page not found'')])
     = Inr (MapHandler Map.empty (\<lambda>w r. w @ [(404::nat, ''404 page not found'')]))
   \<and> snd (ServeHTTP (\<lambda>w r url code. w @ [(code, url)])
        (MapHandler Map.empty (\<lambda>w r. w @ [(404::nat, ''404 page not found'')]))
        []
        \<lparr>Method = ''GET'', Request_URL = \<lparr>url_Path = ''/'', RawQuery = []\<rparr>, Header = []\<rparr>)
     = [(404::nat, ''404 page not found'')]"
  using YAMLHandler_empty_document
          [where yamlBytes = No_document and fb = "\<lambda>w r. w @ [(404::nat, ''404 page not found'')]"
             and rd = "\<lambda>w r url code. w @ [(code, url)]" and w = "[]"
             and r = "\<lparr>Method = ''GET'', Request_URL = \<lparr>url_Path = ''/'', RawQuery = []\<rparr>, Header = []\<rparr>"]
        YAMLHandler_empty_document
          [where yamlBytes = "Document (Sequence [])" and fb = "\<lambda>w r. w @ [(404::nat, ''404 page not found'')]"
             and rd = "\<lambda>w r url code. w @ [(code, url)]" and w = "[]"
             and r = "\<lparr>Method = ''GET'', Request_URL = \<lparr>url_Path = ''/'', RawQuery = []\<rparr>, Header = []\<rparr>"]
  by simp

section \<open>The loop that fills the map\<close>

lemma range_pairs_append: "range_pairs (xs @ ys) m = range_pairs ys (range_pairs xs m)"
  by (induction xs arbitrary: m) simp_all

lemma range_pairs_other:
  "\<forall>q \<in> set pairs. Path q \<noteq> path \<Longrightarrow> range_pairs pairs m path = m path"
  by (induction pairs arbitrary: m) auto

lemma range_pairs_last:
  assumes "\<forall>q \<in> set after. Path q \<noteq> Path pair"
  shows "range_pairs (before @ pair # after) m (Path pair) = Some (URL pair)"
  using assms by (simp add: range_pairs_append range_pairs_other)

lemma range_pairs_canonical:
  "range_pairs pairs m path =
     (case canonical_mapping pairs path of None \<Rightarrow> m path | Some u \<Rightarrow> Some u)"
proof (induction pairs arbitrary: m)
  case Nil
  show ?case by (simp add: canonical_mapping_def)
next
  case (Cons pair pairs)
  show ?case
    by (simp add: Cons.IH canonical_mapping_def split: list.splits)
qed

lemma range_pairs_empty: "range_pairs pairs Map.empty = canonical_mapping pairs"
  by (rule ext) (simp add: range_pairs_canonical split: option.splits)

lemma YAMLHandler_decoded:
  "yaml_Unmarshal yamlBytes [] = (pairs, None) \<Longrightarrow>
   YAMLHandler yamlBytes fb = Inr (MapHandler (range_pairs pairs Map.empty) fb)"
  by (simp add: YAMLHandler_def)

text \<open>
  C5. When the document decodes to \<open>pairs\<close>, the map built by \<open>YAMLHandler\<close>
  gives each path the URL of the last pair with that path: whatever stands before it
  in the slice, earlier pairs with the same path included, is overwritten.
\<close>

theorem YAMLHandler_last_occurrence_wins:
  assumes "yaml_Unmarshal yamlBytes [] = (pairs, None)"
    and "pairs = before @ pair # after"
    and "\<forall>q \<in> set after. Path q \<noteq> Path pair"
  shows "\<exists>h. YAMLHandler yamlBytes fb = Inr h \<and> pathsToUrls h (Path pair) = Some (URL pair)"
  using assms by (simp add: YAMLHandler_decoded MapHandler_def range_pairs_last)

text \<open>
  The scenario of the spec: \<^verbatim>\<open>- path: /a\<close>, \<^verbatim>\<open>url: u1\<close>, \<^verbatim>\<open>- path: /a\<close>, \<^verbatim>\<open>url: u2\<close>
  gives \<^verbatim>\<open>/a\<close> the URL \<^verbatim>\<open>u2\<close>.
\<close>

theorem YAMLHandler_last_occurrence_wins_witness:
  "yaml_Unmarshal
     (Document (Sequence
        [Mapping [(Scalar ''path'', Scalar ''/a''), (Scalar ''url'', Scalar ''u1'')],
         Mapping [(Scalar ''path'', Scalar ''/a''), (Scalar ''url'', Scalar ''u2'')]])) []
     = ([\<lparr>Path = ''/a'', URL = ''u1''\<rparr>, \<lparr>Path = ''/a'', URL = ''u2''\<rparr>], None)
   \<and> (\<exists>h. YAMLHandler
         (Document (Sequence
            [Mapping [(Scalar ''path'', Scalar ''/a''), (Scalar ''url'', Scalar ''u1'')],
             Mapping [(Scalar ''path'', Scalar ''/a''), (Scalar ''url'', Scalar ''u2'')]]))
         (\<lambda>(w :: (nat \<times> string) list) r. w) = Inr h
       \<and> pathsToUrls h ''/a'' = Some ''u2'')"
proof -
  let ?doc = "Document (Sequence
        [Mapping [(Scalar ''path'', Scalar ''/a''), (Scalar ''url'', Scalar ''u1'')],
         Mapping [(Scalar ''path'', Scalar ''/a''), (Scalar ''url'', Scalar ''u2'')]])"
  have decoded: "yaml_Unmarshal ?doc []
      = ([\<lparr>Path = ''/a'', URL = ''u1''\<rparr>, \<lparr>Path = ''/a'', URL = ''u2''\<rparr>], None)"
    by (simp add: yaml_Unmarshal_def zero_pair_def)
  have split: "[\<lparr>Path = ''/a'', URL = ''u1''\<rparr>, \<lparr>Path = ''/a'', URL = ''u2''\<rparr>]
      = [\<lparr>Path = ''/a'', URL = ''u1''\<rparr>] @ \<lparr>Path = ''/a'', URL = ''u2''\<rparr> # []"
    by simp
  have none_after: "\<forall>q \<in> set []. Path q \<noteq> Path \<lparr>Path = ''/a'', URL = ''u2''\<rparr>"
    by simp
  from YAMLHandler_last_occurrence_wins
         [where fb = "\<lambda>(w :: (nat \<times> string) list) r. w", OF decoded split none_after] decoded
  show ?thesis by simp
qed

text \<open>
  C1. When the document decodes without error, a request whose path is the path of a
  pair of the document is redirected by the handler that \<open>YAMLHandler\<close> returns,
  with status 302, to the URL of that pair; when several pairs have this path, to the
  URL of the last of them.
\<close>

theorem YAMLHandler_redirects_document_path:
  assumes "yaml_Unmarshal yamlBytes [] = (pairs, None)"
    and "pairs = before @ pair # after"
    and "\<forall>q \<in> set after. Path q \<noteq> Path pair"
    and "url_Path (Request_URL r) = Path pair"
  shows "\<exists>h. YAMLHandler yamlBytes fb = Inr h
           \<and> ServeHTTP rd h w r = (h, rd w r (URL pair) StatusFound)
           \<and> StatusFound = 302"
  using assms
  by (simp add: YAMLHandler_decoded MapHandler_def ServeHTTP_def range_pairs_last StatusFound_def)

text \<open>
  The document \<^verbatim>\<open>- {path: /a, url: u1}\<close>, \<^verbatim>\<open>- {path: /b, url: u3}\<close>,
  \<^verbatim>\<open>- {path: /a, url: u2}\<close> and a request to \<^verbatim>\<open>/a\<close>.
\<close>

theorem YAMLHandler_redirects_document_path_witness:
  "yaml_Unmarshal
     (Document (Sequence
        [Mapping [(Scalar ''path'', Scalar ''/a''), (Scalar ''url'', Scalar ''u1'')],
         Mapping [(Scalar ''path'', Scalar ''/b''), (Scalar ''url'', Scalar ''u3'')],
         Mapping [(Scalar ''path'', Scalar ''/a''), (Scalar ''url'', Scalar ''u2'')]])) []
     = ([\<lparr>Path = ''/a'', URL = ''u1''\<rparr>, \<lparr>Path = ''/b'', URL = ''u3''\<rparr>,
         \<lparr>Path = ''/a'', URL = ''u2''\<rparr>], None)
   \<and> (\<exists>h. YAMLHandler
         (Document (Sequence
            [Mapping [(Scalar ''path'', Scalar ''/a''), (Scalar ''url'', Scalar ''u1'')],
             Mapping [(Scalar ''path'', Scalar ''/b''), (Scalar ''url'', Scalar ''u3'')],
             Mapping [(Scalar ''path'', Scalar ''/a''), (Scalar ''url'', Scalar ''u2'')]]))
         (\<lambda>w r. w @ [(404, ''404 page not found'')]) = Inr h
       \<and> snd (ServeHTTP (\<lambda>w r url code. w @ [(code, url)]) h []
            \<lparr>Method = ''GET'', Request_URL = \<lparr>url_Path = ''/a'', RawQuery = []\<rparr>, Header = []\<rparr>)
          = [(302, ''u2'')])"
proof -
  let ?doc = "Document (Sequence
        [Mapping [(Scalar ''path'', Scalar ''/a''), (Scalar ''url'', Scalar ''u1'')],
         Mapping [(Scalar ''path'', Scalar ''/b''), (Scalar ''url'', Scalar ''u3'')],
         Mapping [(Scalar ''path'', Scalar ''/a''), (Scalar ''url'', Scalar ''u2'')]])"
  let ?r = "\<lparr>Method = ''GET'', Request_URL = \<lparr>url_Path = ''/a'', RawQuery = []\<rparr>, Header = []\<rparr>"
  have decoded: "yaml_Unmarshal ?doc []
      = ([\<lparr>Path = ''/a'', URL = ''u1''\<rparr>, \<lparr>Path = ''/b'', URL = ''u3''\<rparr>,
          \<lparr>Path = ''/a'', URL = ''u2''\<rparr>], None)"
    by (simp add: yaml_Unmarshal_def zero_pair_def)
  have split: "[\<lparr>Path = ''/a'', URL = ''u1''\<rparr>, \<lparr>Path = ''/b'', URL = ''u3''\<rparr>,
          \<lparr>Path = ''/a'', URL = ''u2''\<rparr>]
      = [\<lparr>Path = ''/a'', URL = ''u1''\<rparr>, \<lparr>Path = ''/b'', URL = ''u3''\<rparr>]
          @ \<lparr>Path = ''/a'', URL = ''u2''\<rparr> # []"
    by simp
  have none_after: "\<forall>q \<in> set []. Path q \<noteq> Path \<lparr>Path = ''/a'', URL = ''u2''\<rparr>"
    by simp
  have path: "url_Path (Request_URL ?r) = Path \<lparr>Path = ''/a'', URL = ''u2''\<rparr>"
    by simp
  from YAMLHandler_redirects_document_path
         [where fb = "\<lambda>w r. w @ [(404, ''404 page not found'')]"
            and rd = "\<lambda>w r url code. w @ [(code, url)]" and w = "[]",
          OF decoded split none_after path] decoded
  show ?thesis by auto
qed

text \<open>
  C6. When the document decodes to \<open>pairs\<close>, the handler that \<open>YAMLHandler\<close>
  returns is the handler that \<open>MapHandler\<close> returns for the canonical mapping of
  \<open>pairs\<close> (last write wins) and the same fallback: the same closure, hence the
  same answer to every request.
\<close>

theorem YAMLHandler_refines_MapHandler:
  assumes "yaml_Unmarshal yamlBytes [] = (pairs, None)"
  shows "YAMLHandler yamlBytes fb = Inr (MapHandler (canonical_mapping pairs) fb)
    \<and> (\<exists>h. YAMLHandler yamlBytes fb = Inr h
          \<and> ServeHTTP rd h w r = ServeHTTP rd (MapHandler (canonical_mapping pairs) fb) w r)"
  using assms by (simp add: YAMLHandler_decoded range_pairs_empty)

theorem YAMLHandler_refines_MapHandler_witness:
  "yaml_Unmarshal
     (Document (Sequence
        [Mapping [(Scalar ''path'', Scalar ''/a''), (Scalar ''url'', Scalar ''u1'')],
         Mapping [(Scalar ''path'', Scalar ''/a''), (Scalar ''url'', Scalar ''u2'')]])) []
     = ([\<lparr>Path = ''/a'', URL = ''u1''\<rparr>, \<lparr>Path = ''/a'', URL = ''u2''\<rparr>], None)
   \<and> YAMLHandler
        (Document (Sequence
           [Mapping [(Scalar ''path'', Scalar ''/a''), (Scalar ''url'', Scalar ''u1'')],
            Mapping [(Scalar ''path'', Scalar ''/a''), (Scalar ''url'', Scalar ''u2'')]]))
        (\<lambda>(w :: (nat \<times> string) list) r. w)
     = Inr (MapHandler
         (canonical_mapping [\<lparr>Path = ''/a'', URL = ''u1''\<rparr>, \<lparr>Path = ''/a'', URL = ''u2''\<rparr>])
         (\<lambda>w r. w))
   \<and> canonical_mapping [\<lparr>Path = ''/a'', URL = ''u1''\<rparr>, \<lparr>Path = ''/a'', URL = ''u2''\<rparr>] ''/a''
     = Some ''u2''"
proof -
  let ?doc = "Document (Sequence
        [Mapping [(Scalar ''path'', Scalar ''/a''), (Scalar ''url'', Scalar ''u1'')],
         Mapping [(Scalar ''path'', Scalar ''/a''), (Scalar ''url'', Scalar ''u2'')]])"
  have decoded: "yaml_Unmarshal ?doc []
      = ([\<lparr>Path = ''/a'', URL = ''u1''\<rparr>, \<lparr>Path = ''/a'', URL = ''u2''\<rparr>], None)"
    by (simp add: yaml_Unmarshal_def zero_pair_def)
  have last: "canonical_mapping [\<lparr>Path = ''/a'', URL = ''u1''\<rparr>, \<lparr>Path = ''/a'', URL = ''u2''\<rparr>] ''/a''
      = Some ''u2''"
    by (simp add: canonical_mapping_def)
  from YAMLHandler_refines_MapHandler
         [where fb = "\<lambda>(w :: (nat \<times> string) list) r. w", OF decoded, THEN conjunct1]
       decoded last
  show ?thesis by simp
qed

section \<open>The type errors of the decoder\<close>









end
